theory Spec2Isabelle
  imports Complex_Main
begin

section \<open>Accurate Binary Convolution: the notebook's layer constructors\<close>

text \<open>
  The notebook builds its layers from TensorFlow primitives on \<open>float32\<close> tensors.
  Here a tensor is its shape together with its elements in row-major order; an element
  is the real number that the \<open>float32\<close> value stands for. A tensor that the notebook
  obtains by tiling along a new leading axis or by converting a Python list of tensors is
  the list of its slices along that axis. Filter counts are Python integers, hence \<open>int\<close>.

  The binary filter generator ends in a sign, which rounding can change, so every
  arithmetic step of the generator is rounded to \<open>float32\<close> as the runtime does. The alpha
  loss and the forward passes are sums of products whose values rounding moves only
  slightly: they are given by their unrounded values. Infinities and NaN have no
  counterpart here: a filter bank must be non-empty (the moments of an empty tensor are
  NaN) and of a magnitude that does not overflow.
\<close>

subsection \<open>Rounding\<close>

text \<open>The power \<open>2\<^sup>e\<close> for an integer exponent.\<close>

definition pow2 :: "int \<Rightarrow> real" where
  "pow2 e = (if 0 \<le> e then 2 ^ nat e else 1 / 2 ^ nat (- e))"

text \<open>Rounding to the nearest integer, a tie going to the even one.\<close>

definition round_half_even :: "real \<Rightarrow> int" where
  "round_half_even y =
     (let f = \<lfloor>y\<rfloor>; d = y - of_int f
      in if d < 1 / 2 then f else if 1 / 2 < d then f + 1 else if even f then f else f + 1)"

text \<open>
  Rounding to the nearest binary floating-point number with \<open>p\<close> significant bits and
  least normal exponent \<open>emin\<close>: the unit in the last place of \<open>x\<close> is
  \<open>2 ^ (e - p + 1)\<close>, with \<open>e\<close> the exponent of \<open>x\<close>, or \<open>emin\<close> for a subnormal \<open>x\<close>.
\<close>

definition round_to :: "nat \<Rightarrow> int \<Rightarrow> real \<Rightarrow> real" where
  "round_to p emin x =
     (if x = 0 then 0
      else let e = max \<lfloor>log 2 \<bar>x\<bar>\<rfloor> emin; u = pow2 (e - int p + 1)
           in of_int (round_half_even (x / u)) * u)"

text \<open>The runtime's \<open>float32\<close> and Python's float, an IEEE double.\<close>

definition float32 :: "real \<Rightarrow> real" where
  "float32 = round_to 24 (- 126)"

definition float64 :: "real \<Rightarrow> real" where
  "float64 = round_to 53 (- 1022)"

subsection \<open>Tensors and errors\<close>

text \<open>
  \<open>ZeroDivisionError\<close> and \<open>ValueError\<close> are raised while the graph is built,
  \<open>InvalidArgumentError\<close> when a node of the graph is evaluated.
\<close>

datatype error = ZeroDivisionError | ValueError | InvalidArgumentError

record tensor =
  shape :: "nat list"
  data :: "real list"

definition tmap :: "(real \<Rightarrow> real) \<Rightarrow> tensor \<Rightarrow> tensor" where
  "tmap f t = t\<lparr>data := map f (data t)\<rparr>"

text \<open>\<open>tf.sign\<close>: \<open>-1\<close> below zero, \<open>0\<close> at zero, \<open>1\<close> above.\<close>

definition sign :: "real \<Rightarrow> real" where
  "sign x = (if x < 0 then - 1 else if x = 0 then 0 else 1)"

text \<open>\<open>tf.reduce_mean\<close> over every axis, unrounded.\<close>

definition reduce_mean :: "real list \<Rightarrow> real" where
  "reduce_mean xs = sum_list xs / real (length xs)"

text \<open>
  \<open>tf.reduce_mean\<close> over every axis in \<open>float32\<close>: the sum, accumulated element by
  element, divided by the number of elements.
\<close>

definition reduce_sum_float32 :: "real list \<Rightarrow> real" where
  "reduce_sum_float32 xs = foldl (\<lambda>acc x. float32 (acc + x)) 0 xs"

definition reduce_mean_float32 :: "real list \<Rightarrow> real" where
  "reduce_mean_float32 xs = float32 (reduce_sum_float32 xs / float32 (real (length xs)))"

text \<open>\<open>tf.squared_difference\<close>: the difference, multiplied by itself.\<close>

definition squared_difference :: "real \<Rightarrow> real \<Rightarrow> real" where
  "squared_difference x y = float32 (float32 (x - y) * float32 (x - y))"

text \<open>
  \<open>tf.nn.moments\<close> over every axis: the mean, and the mean of the squared differences
  from it.
\<close>

definition moments :: "tensor \<Rightarrow> real \<times> real" where
  "moments x =
     (let mean = reduce_mean_float32 (data x);
          variance = reduce_mean_float32 (map (\<lambda>y. squared_difference y mean) (data x))
      in (mean, variance))"

subsection \<open>Moment estimator\<close>

definition get_mean_stddev :: "tensor \<Rightarrow> real \<times> real" where
  "get_mean_stddev input_tensor =
     (let (mean, variance) = moments input_tensor;
          stddev = float32 (sqrt variance)
      in (mean, stddev))"

subsection \<open>Shift offsets\<close>

text \<open>Python's \<open>range(n)\<close>: empty when \<open>n \<le> 0\<close>.\<close>

definition py_range :: "int \<Rightarrow> int list" where
  "py_range n = [0..n - 1]"

text \<open>
  The local \<open>spreaded_deviation\<close> of \<open>get_shifted_stddev\<close>. The quotient
  \<open>2./(no_filters - 1)\<close> is a Python float division: it raises when the divisor is zero
  and is a double otherwise. The double becomes a \<open>float32\<close> constant when it is multiplied
  with the \<open>float32\<close> tensor of the indices, and the product and the sum with \<open>-1.\<close> are
  \<open>float32\<close> operations.
\<close>

definition spreaded_deviation :: "int \<Rightarrow> error + real list" where
  "spreaded_deviation no_filters =
     (if no_filters - 1 = 0 then Inl ZeroDivisionError
      else Inr (map (\<lambda>i. float32 (- 1 +
                            float32 (float32 (float64 (2 / real_of_int (no_filters - 1))) *
                                     float32 (real_of_int i))))
                    (py_range no_filters)))"

definition get_shifted_stddev :: "real \<Rightarrow> int \<Rightarrow> error + real list" where
  "get_shifted_stddev stddev no_filters =
     (case spreaded_deviation no_filters of
        Inl e \<Rightarrow> Inl e
      | Inr sd \<Rightarrow> Inr (map (\<lambda>s. float32 (s * stddev)) sd))"

subsection \<open>Binary filter generator\<close>

text \<open>
  \<open>tf.expand_dims\<close> followed by \<open>tf.tile\<close> with multiples \<open>[no_filters, 1, ..., 1]\<close>:
  \<open>no_filters\<close> copies along a new leading axis. A multiple below \<open>-1\<close> is refused when
  the graph is built; \<open>-1\<close> passes for an unknown size there and is refused when the node
  is evaluated.
\<close>

definition tile :: "int \<Rightarrow> tensor \<Rightarrow> error + tensor list" where
  "tile multiple t =
     (if multiple \<le> - 2 then Inl ValueError
      else if multiple = - 1 then Inl InvalidArgumentError
      else Inr (replicate (nat multiple) t))"

text \<open>
  The sum \<open>tiled_filters + expanded_stddev\<close> adds the \<open>i\<close>-th shifted deviation to every
  element of the \<open>i\<close>-th copy (the deviations are reshaped to \<open>[no_filters, 1, ..., 1]\<close>).
\<close>

definition get_binary_filters :: "tensor \<Rightarrow> int \<Rightarrow> error + tensor list" where
  "get_binary_filters convolution_filters no_filters =
     (let (mean, stddev) = get_mean_stddev convolution_filters in
      case get_shifted_stddev stddev no_filters of
        Inl e \<Rightarrow> Inl e
      | Inr shifted_stddev \<Rightarrow>
          (let mean_adjusted_filters = tmap (\<lambda>w. float32 (w - mean)) convolution_filters in
           case tile no_filters mean_adjusted_filters of
             Inl e \<Rightarrow> Inl e
           | Inr tiled_filters \<Rightarrow>
               Inr (map2 (\<lambda>t s. tmap (\<lambda>x. sign (float32 (x + s))) t)
                      tiled_filters shifted_stddev)))"

subsection \<open>Alpha fitter\<close>

text \<open>\<open>tf.reduce_sum(..., axis=0)\<close> on the list of slices: their element-wise sum.\<close>

fun reduce_sum0 :: "real list list \<Rightarrow> real list" where
  "reduce_sum0 [] = []"
| "reduce_sum0 [r] = r"
| "reduce_sum0 (r # rs) = map2 (+) r (reduce_sum0 rs)"

text \<open>
  \<open>tf.reshape(binary_filters, [no_filters, -1])\<close>: all the elements, in order, in
  \<open>no_filters\<close> rows of equal length. The static shapes refuse a row count that does not
  divide the number of elements, or one below \<open>-1\<close>, when the graph is built. The row
  count \<open>-1\<close>, a second missing size, is refused on evaluation; the row count 0 is
  accepted for a tensor without elements.
\<close>

definition reshaped_binary_filters :: "tensor list \<Rightarrow> int \<Rightarrow> error + real list list" where
  "reshaped_binary_filters binary_filters no_filters =
     (let flat = concat (map data binary_filters);
          rows = nat no_filters;
          cols = length flat div rows
      in if no_filters \<le> - 2 then Inl ValueError
         else if no_filters = - 1 then Inl InvalidArgumentError
         else if no_filters = 0 then (if flat = [] then Inr [] else Inl InvalidArgumentError)
         else if length flat mod rows \<noteq> 0 then Inl ValueError
         else Inr (map (\<lambda>i. take cols (drop (i * cols) flat)) [0..<rows]))"

text \<open>Broadcasting of a vector against a vector of length \<open>n\<close>: a single element is repeated.\<close>

definition broadcast :: "real list \<Rightarrow> nat \<Rightarrow> real list" where
  "broadcast xs n = (if length xs = 1 then replicate n (hd xs) else xs)"

text \<open>
  The loss node of \<open>get_alphas\<close>, as a function of the flattened filters, the reshaped
  binary filters and the current value of the variable \<open>alphas\<close>.
\<close>

definition alphas_loss :: "real list \<Rightarrow> real list list \<Rightarrow> real list \<Rightarrow> real" where
  "alphas_loss reshaped_convolution_filters reshaped_binary alphas =
     (let weighted_sum_filters =
            reduce_sum0 (map2 (\<lambda>a r. map (\<lambda>b. a * b) r) alphas reshaped_binary);
          error = map2 (\<lambda>w s. (w - s)\<^sup>2)
                    (broadcast reshaped_convolution_filters (length weighted_sum_filters))
                    (broadcast weighted_sum_filters (length reshaped_convolution_filters))
      in reduce_mean error)"

text \<open>
  \<open>get_alphas\<close> returns the variable, the training operation and the loss. The variable
  starts from a random draw, one value per filter; the loss is given here for a value of
  the variable. The difference between the flattened filters and the weighted sum is
  refused, when the graph is built, unless the two lengths agree or one of them is 1.
\<close>

definition get_alphas ::
  "tensor \<Rightarrow> tensor list \<Rightarrow> int \<Rightarrow> real list \<Rightarrow> error + real" where
  "get_alphas convolution_filters binary_filters no_filters alphas =
     (case reshaped_binary_filters binary_filters no_filters of
        Inl e \<Rightarrow> Inl e
      | Inr reshaped_binary \<Rightarrow>
          (let n = length (data convolution_filters);
               cols = (case reshaped_binary of [] \<Rightarrow> n | r # _ \<Rightarrow> length r)
           in if n = cols \<or> n = 1 \<or> cols = 1
              then Inr (alphas_loss (data convolution_filters) reshaped_binary alphas)
              else Inl ValueError))"

subsection \<open>Approximate convolution layer\<close>

datatype padding = VALID | SAME

text \<open>
  \<open>tf.nn.conv2d\<close> is a primitive of the tensor runtime: it is a parameter \<open>conv2d\<close> of the
  layer below, taking the input, the filter, the stride pair and the padding mode. Its
  result has the rank of its input, and its shape depends on the shapes of its arguments
  only.
\<close>

type_synonym conv2d = "tensor \<Rightarrow> tensor \<Rightarrow> nat \<times> nat \<Rightarrow> padding \<Rightarrow> error + tensor"

text \<open>
  The step of an optimizer restricted to the variable \<open>alphas\<close>: from the loss as a
  function of the variable, the variable's value and the optimizer's own slots, to the new
  value and slots.
\<close>

type_synonym 'o minimize = "(real list \<Rightarrow> real) \<Rightarrow> real list \<Rightarrow> 'o \<Rightarrow> real list \<times> 'o"

text \<open>What the closure \<open>ApproxConvLayer\<close> captures: configuration and variables.\<close>

record 'o approx_conv =
  ac_no_filters :: int
  ac_strides :: "nat \<times> nat"
  ac_padding :: padding
  ac_filters :: tensor
  ac_biases :: "real list option"
  ac_alphas :: "real list"
  ac_slots :: 'o

definition ApproxConv ::
  "int \<Rightarrow> tensor \<Rightarrow> real list option \<Rightarrow> nat \<times> nat \<Rightarrow> padding \<Rightarrow> (nat \<Rightarrow> real) \<Rightarrow> 'o
     \<Rightarrow> error + 'o approx_conv" where
  "ApproxConv no_filters convolution_filters convolution_biases strides padding
       random_normal slots =
     (case get_binary_filters convolution_filters no_filters of
        Inl e \<Rightarrow> Inl e
      | Inr binary_filters \<Rightarrow>
          (let alphas = map random_normal [0..<nat no_filters] in
           case get_alphas convolution_filters binary_filters no_filters alphas of
             Inl e \<Rightarrow> Inl e
           | Inr loss \<Rightarrow>
               Inr \<lparr>ac_no_filters = no_filters, ac_strides = strides, ac_padding = padding,
                    ac_filters = convolution_filters, ac_biases = convolution_biases,
                    ac_alphas = alphas, ac_slots = slots\<rparr>))"

text \<open>
  \<open>this_conv + biases\<close>. Without biases the constant \<open>0.\<close> is added. With biases, a vector
  is broadcast along the last axis: the two sizes must agree or one of them must be 1.
\<close>

definition add_biases :: "tensor \<Rightarrow> real list option \<Rightarrow> error + tensor" where
  "add_biases this_conv biases =
     (case biases of
        None \<Rightarrow> Inr (tmap (\<lambda>x. x + 0) this_conv)
      | Some b \<Rightarrow>
          (let m = length b;
               d = (if shape this_conv = [] then 1 else last (shape this_conv))
           in if m = d \<or> m = 1 then
                Inr (this_conv\<lparr>data :=
                       map (\<lambda>(j, x). x + b ! (j mod m)) (enumerate 0 (data this_conv))\<rparr>)
              else if d = 1 then
                Inr \<lparr>shape = butlast (shape this_conv) @ [m],
                     data = concat (map (\<lambda>x. map (\<lambda>v. x + v) b) (data this_conv))\<rparr>
              else Inl ValueError))"

text \<open>The loop over the binary filters, collecting \<open>approxConv_outputs\<close>.\<close>

fun approxConv_outputs ::
  "conv2d \<Rightarrow> nat \<times> nat \<Rightarrow> padding \<Rightarrow> real list option \<Rightarrow> tensor \<Rightarrow> tensor list
     \<Rightarrow> error + tensor list" where
  "approxConv_outputs conv2d strides padding biases input_tensor [] = Inr []"
| "approxConv_outputs conv2d strides padding biases input_tensor (binary_filter # rest) =
     (case conv2d input_tensor binary_filter strides padding of
        Inl e \<Rightarrow> Inl e
      | Inr this_conv \<Rightarrow>
          (case add_biases this_conv biases of
             Inl e \<Rightarrow> Inl e
           | Inr out \<Rightarrow>
               (case approxConv_outputs conv2d strides padding biases input_tensor rest of
                  Inl e \<Rightarrow> Inl e
                | Inr outs \<Rightarrow> Inr (out # outs))))"

text \<open>\<open>tf.convert_to_tensor\<close> on a list of tensors stacks them: their shapes must agree.\<close>

definition convert_to_tensor :: "tensor list \<Rightarrow> error + tensor list" where
  "convert_to_tensor ts =
     (if list_all (\<lambda>t. shape t = shape (hd ts)) ts then Inr ts else Inl ValueError)"

text \<open>
  \<open>tf.reduce_sum(tf.multiply(outputs, reshaped_weights), axis=0)\<close>, the weights reshaped
  to \<open>[n] + [1] * rank\<close> with \<open>rank\<close> the rank of the layer's input. On an empty list
  the product has shape \<open>[0, 1, ..., 1, 0]\<close>, and for a scalar input shape \<open>[0]\<close>.
\<close>

definition weighted_sum :: "nat \<Rightarrow> tensor list \<Rightarrow> real list \<Rightarrow> tensor" where
  "weighted_sum rank outputs weights =
     (case outputs of
        [] \<Rightarrow> (if rank = 0 then \<lparr>shape = [], data = [0]\<rparr>
               else \<lparr>shape = replicate (rank - 1) 1 @ [0], data = []\<rparr>)
      | t # _ \<Rightarrow>
          \<lparr>shape = shape t,
           data = reduce_sum0 (map2 (\<lambda>t w. map (\<lambda>x. x * w) (data t)) outputs weights)\<rparr>)"

definition ApproxConvLayer :: "conv2d \<Rightarrow> 'o approx_conv \<Rightarrow> tensor \<Rightarrow> error + tensor" where
  "ApproxConvLayer conv2d layer input_tensor =
     (case get_binary_filters (ac_filters layer) (ac_no_filters layer) of
        Inl e \<Rightarrow> Inl e
      | Inr binary_filters \<Rightarrow>
          (case approxConv_outputs conv2d (ac_strides layer) (ac_padding layer)
                  (ac_biases layer) input_tensor binary_filters of
             Inl e \<Rightarrow> Inl e
           | Inr outs \<Rightarrow>
               (case convert_to_tensor outs of
                  Inl e \<Rightarrow> Inl e
                | Inr conv_outputs \<Rightarrow>
                    Inr (weighted_sum (length (shape input_tensor)) conv_outputs
                           (ac_alphas layer)))))"

text \<open>
  The training operation \<open>minimize(loss, var_list=[alphas])\<close>: one optimizer step on the
  loss of the current filters.
\<close>

definition alphas_training_op :: "'o minimize \<Rightarrow> 'o approx_conv \<Rightarrow> error + 'o approx_conv" where
  "alphas_training_op minimize layer =
     (case get_binary_filters (ac_filters layer) (ac_no_filters layer) of
        Inl e \<Rightarrow> Inl e
      | Inr binary_filters \<Rightarrow>
          (case reshaped_binary_filters binary_filters (ac_no_filters layer) of
             Inl e \<Rightarrow> Inl e
           | Inr reshaped_binary \<Rightarrow>
               (let (alphas, slots) =
                      minimize (alphas_loss (data (ac_filters layer)) reshaped_binary)
                        (ac_alphas layer) (ac_slots layer)
                in Inr (layer\<lparr>ac_alphas := alphas, ac_slots := slots\<rparr>))))"

subsection \<open>ABC layer\<close>

record 'o abc =
  abc_no_ApproxConvLayers :: int
  abc_shift_parameters :: "real list"
  abc_betas :: "real list"
  abc_approx :: "'o approx_conv"

text \<open>
  \<open>tf.constant(v, shape=(no_ApproxConvLayers, 1))\<close> raises for a negative size and gives an
  empty tensor for size 0.
\<close>

definition ABC ::
  "tensor \<Rightarrow> real list option \<Rightarrow> int \<Rightarrow> int \<Rightarrow> nat \<times> nat \<Rightarrow> padding \<Rightarrow> (nat \<Rightarrow> real) \<Rightarrow> 'o
     \<Rightarrow> error + 'o abc" where
  "ABC convolution_filters convolution_biases no_binary_filters no_ApproxConvLayers
       strides padding random_normal slots =
     (if no_ApproxConvLayers < 0 then Inl ValueError
      else
        (let shift_parameters = replicate (nat no_ApproxConvLayers) 0;
             betas = replicate (nat no_ApproxConvLayers) 1
         in case ApproxConv no_binary_filters convolution_filters convolution_biases
                   strides padding random_normal slots of
              Inl e \<Rightarrow> Inl e
            | Inr layer \<Rightarrow>
                Inr \<lparr>abc_no_ApproxConvLayers = no_ApproxConvLayers,
                     abc_shift_parameters = shift_parameters, abc_betas = betas,
                     abc_approx = layer\<rparr>))"

text \<open>\<open>tf.clip_by_value(t, lo, hi)\<close> is \<open>maximum(minimum(t, hi), lo)\<close>.\<close>

definition clip_by_value :: "real \<Rightarrow> real \<Rightarrow> real \<Rightarrow> real" where
  "clip_by_value t lo hi = max (min t hi) lo"

text \<open>One element of \<open>binarized_activation\<close> for one shift parameter.\<close>

definition binarized_activation :: "real \<Rightarrow> real \<Rightarrow> real" where
  "binarized_activation shift_parameter x =
     (let shifted_input = clip_by_value (x + shift_parameter) 0 1
      in sign (shifted_input - 0.5))"

text \<open>The loop over the shift parameters, collecting \<open>ApproxConv_layers\<close>.\<close>

fun ApproxConv_layers ::
  "conv2d \<Rightarrow> 'o approx_conv \<Rightarrow> tensor \<Rightarrow> real list \<Rightarrow> error + tensor list" where
  "ApproxConv_layers conv2d layer input_tensor [] = Inr []"
| "ApproxConv_layers conv2d layer input_tensor (shift_parameter # rest) =
     (case ApproxConvLayer conv2d layer
             (tmap (binarized_activation shift_parameter) input_tensor) of
        Inl e \<Rightarrow> Inl e
      | Inr out \<Rightarrow>
          (case ApproxConv_layers conv2d layer input_tensor rest of
             Inl e \<Rightarrow> Inl e
           | Inr outs \<Rightarrow> Inr (out # outs)))"

definition ABCLayer :: "conv2d \<Rightarrow> 'o abc \<Rightarrow> tensor \<Rightarrow> error + tensor" where
  "ABCLayer conv2d layer input_tensor =
     (case ApproxConv_layers conv2d (abc_approx layer) input_tensor
             (abc_shift_parameters layer) of
        Inl e \<Rightarrow> Inl e
      | Inr outs \<Rightarrow>
          (case convert_to_tensor outs of
             Inl e \<Rightarrow> Inl e
           | Inr ApproxConv_output \<Rightarrow>
               Inr (weighted_sum (length (shape input_tensor)) ApproxConv_output
                      (abc_betas layer))))"

subsection \<open>Running an operation of the graph\<close>

text \<open>
  \<open>sess.run\<close> on one of the things the constructors return: the alpha training operation,
  the alpha loss, or the output of a forward callable on an input. It yields the fetched
  value and the variables after the run.
\<close>

datatype fetch =
    Alphas_training_op
  | Alphas_loss
  | ApproxConvLayer_output tensor
  | ABCLayer_output tensor

datatype fetched = No_value | Scalar_value real | Tensor_value tensor

definition sess_run ::
  "'o minimize \<Rightarrow> conv2d \<Rightarrow> fetch \<Rightarrow> 'o abc \<Rightarrow> error + fetched \<times> 'o abc" where
  "sess_run minimize conv2d f layer =
     (case f of
        Alphas_training_op \<Rightarrow>
          (case alphas_training_op minimize (abc_approx layer) of
             Inl e \<Rightarrow> Inl e
           | Inr approx \<Rightarrow> Inr (No_value, layer\<lparr>abc_approx := approx\<rparr>))
      | Alphas_loss \<Rightarrow>
          (case get_binary_filters (ac_filters (abc_approx layer))
                  (ac_no_filters (abc_approx layer)) of
             Inl e \<Rightarrow> Inl e
           | Inr binary_filters \<Rightarrow>
               (case get_alphas (ac_filters (abc_approx layer)) binary_filters
                       (ac_no_filters (abc_approx layer)) (ac_alphas (abc_approx layer)) of
                  Inl e \<Rightarrow> Inl e
                | Inr loss \<Rightarrow> Inr (Scalar_value loss, layer)))
      | ApproxConvLayer_output input_tensor \<Rightarrow>
          (case ApproxConvLayer conv2d (abc_approx layer) input_tensor of
             Inl e \<Rightarrow> Inl e
           | Inr out \<Rightarrow> Inr (Tensor_value out, layer))
      | ABCLayer_output input_tensor \<Rightarrow>
          (case ABCLayer conv2d layer input_tensor of
             Inl e \<Rightarrow> Inl e
           | Inr out \<Rightarrow> Inr (Tensor_value out, layer)))"

subsection \<open>The specification's formulas\<close>



definition spec_shift :: "int \<Rightarrow> nat \<Rightarrow> real" where
  "spec_shift M i = - 1 + real i * (2 / (real_of_int M - 1))"

text \<open>
  The same offset as the runtime computes it: the quotient rounded to a double and then
  to \<open>float32\<close>, the product and the sum rounded to \<open>float32\<close>.
\<close>

definition float32_shift :: "int \<Rightarrow> nat \<Rightarrow> real" where
  "float32_shift M i =
     float32 (- 1 + float32 (float32 (float64 (2 / real_of_int (M - 1))) * float32 (real i)))"




section \<open>Properties\<close>

subsection \<open>Rounding\<close>

lemma pow2_powr: "pow2 e = 2 powr (of_int e)"
  by (simp add: pow2_def powr_int)

lemma pow2_pos [simp]: "0 < pow2 e"
  by (simp add: pow2_powr)

lemma pow2_nonneg [simp]: "0 \<le> pow2 e"
  using pow2_pos[of e] by linarith

lemma pow2_neq0 [simp]: "pow2 e \<noteq> 0"
  using pow2_pos[of e] by linarith

lemma pow2_not_le0 [simp]: "\<not> pow2 e \<le> 0"
  using pow2_pos[of e] by linarith

lemma pow2_add: "pow2 (a + b) = pow2 a * pow2 b"
  by (simp add: pow2_powr powr_add)

lemma pow2_mono: "a \<le> b \<Longrightarrow> pow2 a \<le> pow2 b"
  by (simp add: pow2_powr)

lemma pow2_nat: "pow2 (int n) = 2 ^ n"
  by (simp add: pow2_def)

lemma round_half_even_of_int [simp]: "round_half_even (of_int z) = z"
  by (simp add: round_half_even_def)

lemma round_half_even_error: "\<bar>of_int (round_half_even y) - y\<bar> \<le> 1 / 2"
proof -
  have "of_int \<lfloor>y\<rfloor> \<le> y" "y < of_int \<lfloor>y\<rfloor> + 1" by linarith+
  then show ?thesis by (auto simp: round_half_even_def Let_def)
qed

lemma floor_log2_bounds:
  assumes "x \<noteq> 0"
  shows "pow2 \<lfloor>log 2 \<bar>x\<bar>\<rfloor> \<le> \<bar>x\<bar>" "\<bar>x\<bar> < pow2 (\<lfloor>log 2 \<bar>x\<bar>\<rfloor> + 1)"
proof -
  have "0 < \<bar>x\<bar>" using assms by simp
  then have "2 powr (of_int \<lfloor>log 2 \<bar>x\<bar>\<rfloor>) \<le> \<bar>x\<bar> \<and> \<bar>x\<bar> < 2 powr (of_int (\<lfloor>log 2 \<bar>x\<bar>\<rfloor> + 1))"
    using floor_log_eq_powr_iff[of "\<bar>x\<bar>" 2 "\<lfloor>log 2 \<bar>x\<bar>\<rfloor>"] by simp
  then show "pow2 \<lfloor>log 2 \<bar>x\<bar>\<rfloor> \<le> \<bar>x\<bar>" "\<bar>x\<bar> < pow2 (\<lfloor>log 2 \<bar>x\<bar>\<rfloor> + 1)"
    by (simp_all add: pow2_powr)
qed

lemma floor_log2_eq:
  assumes "pow2 e \<le> \<bar>x\<bar>" "\<bar>x\<bar> < pow2 (e + 1)"
  shows "\<lfloor>log 2 \<bar>x\<bar>\<rfloor> = e"
proof -
  have "0 < \<bar>x\<bar>" using assms(1) pow2_pos[of e] by linarith
  then show ?thesis
    using floor_log_eq_powr_iff[of "\<bar>x\<bar>" 2 e] assms by (simp add: pow2_powr)
qed

text \<open>Evaluation at a value whose binade is known.\<close>

lemma round_to_eval:
  assumes "pow2 e \<le> \<bar>x\<bar>" "\<bar>x\<bar> < pow2 (e + 1)" "emin \<le> e"
  shows "round_to p emin x =
     of_int (round_half_even (x / pow2 (e - int p + 1))) * pow2 (e - int p + 1)"
proof -
  have "x \<noteq> 0" using assms(1) pow2_pos[of e] by auto
  moreover have "max \<lfloor>log 2 \<bar>x\<bar>\<rfloor> emin = e"
    using floor_log2_eq[OF assms(1,2)] assms(3) by simp
  ultimately show ?thesis by (simp add: round_to_def Let_def)
qed

lemma round_to_zero [simp]: "round_to p emin 0 = 0"
  by (simp add: round_to_def)

text \<open>A value with at most \<open>p\<close> significant bits above the least exponent is kept.\<close>

lemma round_to_exact:
  assumes x: "x = of_int m * pow2 k"
    and small: "\<bar>x\<bar> < pow2 (k + int p)"
    and k: "emin - int p + 1 \<le> k"
  shows "round_to p emin x = x"
proof (cases "x = 0")
  case True
  then show ?thesis by simp
next
  case False
  define e where "e = max \<lfloor>log 2 \<bar>x\<bar>\<rfloor> emin"
  define d where "d = k - (e - int p + 1)"
  have "pow2 \<lfloor>log 2 \<bar>x\<bar>\<rfloor> < pow2 (k + int p)"
    using floor_log2_bounds(1)[OF False] small by linarith
  then have "\<lfloor>log 2 \<bar>x\<bar>\<rfloor> < k + int p"
    by (simp add: pow2_powr)
  then have "e \<le> k + int p - 1" using k by (simp add: e_def)
  then have d: "0 \<le> d" by (simp add: d_def)
  have "pow2 k = pow2 d * pow2 (e - int p + 1)"
    unfolding pow2_add[symmetric] by (simp add: d_def)
  then have "x / pow2 (e - int p + 1) = of_int m * pow2 d"
    using x by simp
  also have "\<dots> = of_int (m * 2 ^ nat d)"
    using d by (simp add: pow2_def)
  finally have q: "x / pow2 (e - int p + 1) = of_int (m * 2 ^ nat d)" .
  have "round_to p emin x = of_int (round_half_even (x / pow2 (e - int p + 1))) * pow2 (e - int p + 1)"
    using False by (simp add: round_to_def Let_def e_def)
  also have "\<dots> = (x / pow2 (e - int p + 1)) * pow2 (e - int p + 1)"
    unfolding q round_half_even_of_int ..
  also have "\<dots> = x" by simp
  finally show ?thesis .
qed

text \<open>Rounding error: relative in the normal range, absolute below it.\<close>

lemma round_to_error:
  "\<bar>round_to p emin x - x\<bar> \<le> pow2 (- int p) * \<bar>x\<bar> + pow2 (emin - int p)"
proof (cases "x = 0")
  case True
  then show ?thesis using pow2_pos[of "emin - int p"] by simp
next
  case False
  define e where "e = max \<lfloor>log 2 \<bar>x\<bar>\<rfloor> emin"
  define u where "u = pow2 (e - int p + 1)"
  have u: "0 < u" by (simp add: u_def)
  have r: "round_to p emin x = of_int (round_half_even (x / u)) * u"
    using False by (simp add: round_to_def Let_def e_def u_def)
  have "round_to p emin x - x = (of_int (round_half_even (x / u)) - x / u) * u"
    using u by (simp add: r left_diff_distrib)
  then have "\<bar>round_to p emin x - x\<bar> = \<bar>of_int (round_half_even (x / u)) - x / u\<bar> * u"
    using u by (simp add: abs_mult)
  also have "\<dots> \<le> (1 / 2) * u"
    using round_half_even_error[of "x / u"] u by (intro mult_right_mono) auto
  also have "\<dots> = pow2 (e - int p)"
  proof -
    have "pow2 (e - int p + 1) = pow2 (e - int p) * pow2 1" by (rule pow2_add)
    then show ?thesis by (simp add: u_def pow2_def)
  qed
  also have "\<dots> \<le> pow2 (- int p) * \<bar>x\<bar> + pow2 (emin - int p)"
  proof (cases "emin \<le> \<lfloor>log 2 \<bar>x\<bar>\<rfloor>")
    case True
    then have "e = \<lfloor>log 2 \<bar>x\<bar>\<rfloor>" by (simp add: e_def)
    then have "pow2 e \<le> \<bar>x\<bar>" using floor_log2_bounds(1)[OF False] by simp
    moreover have "pow2 (e - int p) = pow2 (- int p) * pow2 e"
      unfolding pow2_add[symmetric] by simp
    ultimately have "pow2 (e - int p) \<le> pow2 (- int p) * \<bar>x\<bar>"
      by (simp add: mult_left_mono)
    then show ?thesis using pow2_pos[of "emin - int p"] by linarith
  next
    case False
    then have "e = emin" by (simp add: e_def)
    moreover have "0 \<le> pow2 (- int p) * \<bar>x\<bar>" by simp
    ultimately show ?thesis by simp
  qed
  finally show ?thesis .
qed

lemma float32_zero [simp]: "float32 0 = 0"
  by (simp add: float32_def)

lemma float32_of_int:
  assumes "\<bar>m\<bar> < 2 ^ 24"
  shows "float32 (of_int m) = of_int m"
proof -
  have "\<bar>real_of_int m\<bar> < 2 ^ 24"
    using assms by (metis of_int_abs of_int_less_numeral_power_cancel_iff)
  then show ?thesis
    unfolding float32_def
    by (intro round_to_exact[where m = m and k = 0]) (simp_all add: pow2_def)
qed

lemma float32_error: "\<bar>float32 x - x\<bar> \<le> \<bar>x\<bar> / 2 ^ 24 + 1 / 2 ^ 150"
  using round_to_error[of 24 "- 126" x] by (simp add: float32_def pow2_def)

lemma float64_error: "\<bar>float64 x - x\<bar> \<le> \<bar>x\<bar> / 2 ^ 53 + 1 / 2 ^ 1075"
  using round_to_error[of 53 "- 1022" x] by (simp add: float64_def pow2_def)

lemma float64_of_int:
  assumes "\<bar>m\<bar> < 2 ^ 53"
  shows "float64 (of_int m) = of_int m"
proof -
  have "\<bar>real_of_int m\<bar> < 2 ^ 53"
    using assms by (metis of_int_abs of_int_less_numeral_power_cancel_iff)
  then show ?thesis
    unfolding float64_def
    by (intro round_to_exact[where m = m and k = 0]) (simp_all add: pow2_def)
qed

lemma float32_numeral [simp]:
  "float32 1 = 1" "float32 2 = 2" "float32 (- 1) = - 1" "float32 (- 2) = - 2"
  using float32_of_int[of 1] float32_of_int[of 2] float32_of_int[of "- 1"]
    float32_of_int[of "- 2"]
  by simp_all

lemma float64_two [simp]: "float64 2 = 2"
  using float64_of_int[of 2] by simp

text \<open>The last offset for 42 filters, step by step.\<close>

lemma float64_2_41: "float64 (2 / 41) = 7030009174431994 / 2 ^ 57"
proof -
  have "round_to 53 (- 1022) (2 / 41) =
      of_int (round_half_even ((2 / 41) / pow2 (- 5 - int 53 + 1))) * pow2 (- 5 - int 53 + 1)"
    by (rule round_to_eval) (simp_all add: pow2_def)
  also have "\<dots> = 7030009174431994 / 2 ^ 57"
    by (simp add: pow2_def round_half_even_def Let_def)
  finally show ?thesis by (simp add: float64_def)
qed

lemma float32_c42: "float32 (7030009174431994 / 2 ^ 57) = 13094412 / 2 ^ 28"
proof -
  have "round_to 24 (- 126) (7030009174431994 / 2 ^ 57) =
      of_int (round_half_even ((7030009174431994 / 2 ^ 57) / pow2 (- 5 - int 24 + 1)))
        * pow2 (- 5 - int 24 + 1)"
    by (rule round_to_eval) (simp_all add: pow2_def)
  also have "\<dots> = 13094412 / 2 ^ 28"
    by (simp add: pow2_def round_half_even_def Let_def)
  finally show ?thesis by (simp add: float32_def)
qed

lemma float32_p42: "float32 (13094412 / 2 ^ 28 * 41) = 16777215 / 2 ^ 23"
proof -
  have "round_to 24 (- 126) (13094412 / 2 ^ 28 * 41) =
      of_int (round_half_even ((13094412 / 2 ^ 28 * 41) / pow2 (0 - int 24 + 1)))
        * pow2 (0 - int 24 + 1)"
    by (rule round_to_eval) (simp_all add: pow2_def)
  also have "\<dots> = 16777215 / 2 ^ 23"
    by (simp add: pow2_def round_half_even_def Let_def)
  finally show ?thesis by (simp add: float32_def)
qed

lemma float32_last42: "float32 (- 1 + 16777215 / 2 ^ 23) = 1 - 1 / 2 ^ 23"
proof -
  have "- 1 + 16777215 / 2 ^ 23 = real_of_int 8388607 * pow2 (- 23)"
    by (simp add: pow2_def)
  moreover have "round_to 24 (- 126) (real_of_int 8388607 * pow2 (- 23)) =
      real_of_int 8388607 * pow2 (- 23)"
    by (rule round_to_exact[where m = 8388607 and k = "- 23"]) (simp_all add: pow2_def)
  ultimately show ?thesis by (simp add: float32_def pow2_def)
qed

lemma float32_shift_42_41: "float32_shift 42 41 = 1 - 1 / 2 ^ 23"
proof -
  have f41: "float32 (real 41) = 41"
    using float32_of_int[of 41] by simp
  have r: "2 / real_of_int (42 - 1) = 2 / 41" by simp
  have "float32_shift 42 41 =
      float32 (- 1 + float32 (float32 (float64 (2 / 41)) * float32 (real 41)))"
    by (simp only: float32_shift_def r)
  also have "\<dots> = float32 (- 1 + float32 (13094412 / 2 ^ 28 * 41))"
    by (simp only: float64_2_41 float32_c42 f41)
  also have "\<dots> = float32 (- 1 + 16777215 / 2 ^ 23)"
    by (simp only: float32_p42)
  also have "\<dots> = 1 - 1 / 2 ^ 23"
    by (rule float32_last42)
  finally show ?thesis .
qed


subsection \<open>Ranges and rows\<close>

lemma length_py_range: "length (py_range n) = nat n"
  by (simp add: py_range_def)

lemma nth_py_range: "i < nat n \<Longrightarrow> py_range n ! i = int i"
  by (simp add: py_range_def)

lemma py_range_upt: "py_range n = map int [0..<nat n]"
  by (rule nth_equalityI) (simp_all add: length_py_range nth_py_range)


lemma map2_replicate_left:
  "length ys = n \<Longrightarrow> map2 f (replicate n x) ys = map (f x) ys"
  by (simp add: zip_replicate1)

subsection \<open>The generator\<close>

lemma spreaded_deviation_Inr:
  "M \<noteq> 1 \<Longrightarrow> spreaded_deviation M = Inr (map (float32_shift M) [0..<nat M])"
  by (simp add: spreaded_deviation_def py_range_upt float32_shift_def comp_def)

lemma get_shifted_stddev_Inr:
  "M \<noteq> 1 \<Longrightarrow> get_shifted_stddev stddev M =
     Inr (map (\<lambda>i. float32 (float32_shift M i * stddev)) [0..<nat M])"
  by (simp add: get_shifted_stddev_def spreaded_deviation_Inr comp_def)

lemma get_binary_filters_Inr:
  assumes "0 \<le> M" "M \<noteq> 1"
  shows "get_binary_filters W M =
     Inr (map (\<lambda>i. tmap (\<lambda>x. sign (float32 (float32 (x - fst (get_mean_stddev W)) +
                  float32 (float32_shift M i * snd (get_mean_stddev W))))) W)
            [0..<nat M])"
  using assms
  by (simp add: get_binary_filters_def get_shifted_stddev_Inr tile_def split_beta Let_def
      map2_replicate_left tmap_def comp_def)


lemma get_binary_filters_members:
  assumes "get_binary_filters W M = Inr B"
  shows "length B = nat M" "\<forall>b\<in>set B. shape b = shape W \<and> length (data b) = length (data W)"
proof -
  have M: "0 \<le> M \<and> M \<noteq> 1"
    using assms
    by (auto simp: get_binary_filters_def get_shifted_stddev_def spreaded_deviation_def
        tile_def split_beta Let_def split: if_splits)
  then have B: "B = map (\<lambda>i. tmap (\<lambda>x. sign (float32 (float32 (x - fst (get_mean_stddev W)) +
                  float32 (float32_shift M i * snd (get_mean_stddev W))))) W) [0..<nat M]"
    using assms get_binary_filters_Inr[of M W] by simp
  show "length B = nat M" by (simp add: B)
  show "\<forall>b\<in>set B. shape b = shape W \<and> length (data b) = length (data W)"
    by (auto simp: B tmap_def)
qed


lemma reduce_sum_float32_zeros: "reduce_sum_float32 (replicate n 0) = 0"
  by (induction n) (simp_all add: reduce_sum_float32_def)

lemma get_mean_stddev_zeros:
  "get_mean_stddev \<lparr>shape = sh, data = replicate n 0\<rparr> = (0, 0)"
  by (simp add: get_mean_stddev_def moments_def reduce_mean_float32_def
      reduce_sum_float32_zeros squared_difference_def)

lemma get_binary_filters_zeros:
  assumes "0 \<le> M" "M \<noteq> 1"
  shows "get_binary_filters \<lparr>shape = sh, data = replicate n 0\<rparr> M =
     Inr (replicate (nat M) \<lparr>shape = sh, data = replicate n 0\<rparr>)"
  using assms
  by (simp add: get_binary_filters_Inr get_mean_stddev_zeros tmap_def sign_def
      map_replicate_const)

lemma get_mean_stddev_example:
  "get_mean_stddev \<lparr>shape = sh, data = [0, 2]\<rparr> = (1, 1)"
  by (simp add: get_mean_stddev_def moments_def reduce_mean_float32_def
      reduce_sum_float32_def squared_difference_def)

lemma float32_shift_2: "float32_shift 2 0 = - 1" "float32_shift 2 (Suc 0) = 1"
  by (simp_all add: float32_shift_def)

lemma get_binary_filters_example:
  "get_binary_filters \<lparr>shape = sh, data = [0, 2]\<rparr> 2 =
     Inr [\<lparr>shape = sh, data = [- 1, 0]\<rparr>, \<lparr>shape = sh, data = [0, 1]\<rparr>]"
  by (simp add: get_binary_filters_Inr get_mean_stddev_example float32_shift_2 tmap_def
      sign_def numeral_2_eq_2)

subsection \<open>Offsets: distance from the exact values\<close>

lemma float32_shift_error:
  assumes M: "2 \<le> M" "M \<le> 2 ^ 24" and i: "i < nat M"
  shows "\<bar>float32_shift M i - spec_shift M i\<bar> \<le> 1 / 2 ^ 21"
proof -
  define R where "R = 2 / real_of_int (M - 1)"
  define I where "I = real i"
  define c64 where "c64 = float64 R"
  define c where "c = float32 c64"
  define p where "p = float32 (c * I)"
  define s where "s = float32 (- 1 + p)"
  have M1: "0 < real_of_int (M - 1)" using M by simp
  have R: "0 < R" "R \<le> 2"
    using M by (simp_all add: R_def field_simps)
  have I: "0 \<le> I" "I \<le> 2 ^ 24"
  proof -
    show "0 \<le> I" by (simp add: I_def)
    have "int i < 2 ^ 24" using i M by linarith
    then have "real_of_int (int i) < 2 ^ 24" by (metis of_int_less_numeral_power_cancel_iff)
    then show "I \<le> 2 ^ 24" by (simp add: I_def)
  qed
  have "real i \<le> real_of_int (M - 1)" using i M by (simp add: of_nat_less_iff nat_less_iff)
  then have RI: "R * I \<le> 2"
    using M1 by (simp add: R_def I_def field_simps)
  have RI0: "0 \<le> R * I" using R I by simp
  have fI: "float32 I = I"
  proof -
    have "\<bar>int i\<bar> < 2 ^ 24" using i M by linarith
    from float32_of_int[OF this] show ?thesis by (simp add: I_def)
  qed
  have s: "float32_shift M i = s"
    by (simp add: float32_shift_def s_def p_def c_def c64_def R_def I_def fI[unfolded I_def])
  have spec: "spec_shift M i = - 1 + R * I"
    by (simp add: spec_shift_def R_def I_def)
  have "\<bar>c64 - R\<bar> \<le> \<bar>R\<bar> / 2 ^ 53 + 1 / 2 ^ 1075"
    unfolding c64_def by (rule float64_error)
  then have a: "\<bar>c64 - R\<bar> \<le> R / 2 ^ 53 + 1 / 2 ^ 150"
    using R(1) by (simp add: abs_if split: if_splits) 
  have "\<bar>c - c64\<bar> \<le> \<bar>c64\<bar> / 2 ^ 24 + 1 / 2 ^ 150"
    unfolding c_def by (rule float32_error)
  moreover have "\<bar>c64\<bar> \<le> R + R / 2 ^ 53 + 1 / 2 ^ 150"
    using a R(1) by linarith
  moreover have "\<bar>c64\<bar> / 2 ^ 24 \<le> (R + R / 2 ^ 53 + 1 / 2 ^ 150) / 2 ^ 24"
    using calculation(2) by (intro divide_right_mono) simp_all
  ultimately have b: "\<bar>c - c64\<bar> \<le> (R + R / 2 ^ 53 + 1 / 2 ^ 150) / 2 ^ 24 + 1 / 2 ^ 150"
    by linarith
  have "\<bar>c - R\<bar> \<le> \<bar>c - c64\<bar> + \<bar>c64 - R\<bar>" by linarith
  then have "\<bar>c - R\<bar> \<le> (R + R / 2 ^ 53 + 1 / 2 ^ 150) / 2 ^ 24 + 1 / 2 ^ 150 +
      (R / 2 ^ 53 + 1 / 2 ^ 150)"
    using a b by linarith
  also have "\<dots> \<le> R * (1 / 2 ^ 24 + 1 / 2 ^ 52) + 1 / 2 ^ 148"
    using R(1) by (simp add: field_simps)
  finally have cR: "\<bar>c - R\<bar> \<le> R * (1 / 2 ^ 24 + 1 / 2 ^ 52) + 1 / 2 ^ 148" .
  have "\<bar>c * I - R * I\<bar> = \<bar>c - R\<bar> * I"
    using I(1) by (simp add: left_diff_distrib[symmetric] abs_mult)
  also have "\<dots> \<le> (R * (1 / 2 ^ 24 + 1 / 2 ^ 52) + 1 / 2 ^ 148) * I"
    using cR I(1) by (rule mult_right_mono)
  also have "\<dots> = (R * I) * (1 / 2 ^ 24 + 1 / 2 ^ 52) + I / 2 ^ 148"
    by (simp add: algebra_simps)
  also have "\<dots> \<le> 2 * (1 / 2 ^ 24 + 1 / 2 ^ 52) + 2 ^ 24 / 2 ^ 148"
    using RI I(2) by (intro add_mono mult_right_mono divide_right_mono) simp_all
  finally have cI: "\<bar>c * I - R * I\<bar> \<le> 1 / 2 ^ 23 + 1 / 2 ^ 50"
    by simp
  have cI_abs: "\<bar>c * I\<bar> \<le> 3"
    using cI RI RI0 by (simp add: abs_if split: if_splits)
  have "\<bar>p - c * I\<bar> \<le> \<bar>c * I\<bar> / 2 ^ 24 + 1 / 2 ^ 150"
    unfolding p_def by (rule float32_error)
  moreover have "\<bar>c * I\<bar> / 2 ^ 24 \<le> 3 / 2 ^ 24"
    using cI_abs by (intro divide_right_mono) simp_all
  ultimately have pc: "\<bar>p - c * I\<bar> \<le> 3 / 2 ^ 24 + 1 / 2 ^ 150"
    by linarith
  have "\<bar>p - R * I\<bar> \<le> \<bar>p - c * I\<bar> + \<bar>c * I - R * I\<bar>" by linarith
  then have pR: "\<bar>p - R * I\<bar> \<le> 5 / 2 ^ 24 + 1 / 2 ^ 49"
    using pc cI by simp
  have p1: "\<bar>- 1 + p\<bar> \<le> 2"
    using pR RI RI0 by (simp add: abs_if split: if_splits)
  have "\<bar>s - (- 1 + p)\<bar> \<le> \<bar>- 1 + p\<bar> / 2 ^ 24 + 1 / 2 ^ 150"
    unfolding s_def by (rule float32_error)
  moreover have "\<bar>- 1 + p\<bar> / 2 ^ 24 \<le> 2 / 2 ^ 24"
    using p1 by (intro divide_right_mono) simp_all
  ultimately have sp: "\<bar>s - (- 1 + p)\<bar> \<le> 2 / 2 ^ 24 + 1 / 2 ^ 150"
    by linarith
  have "\<bar>s - (- 1 + R * I)\<bar> \<le> \<bar>s - (- 1 + p)\<bar> + \<bar>p - R * I\<bar>" by linarith
  then have "\<bar>s - (- 1 + R * I)\<bar> \<le> 1 / 2 ^ 21"
    using sp pR by simp
  then show ?thesis by (simp add: s spec)
qed

lemma spec_shift_last:
  assumes "2 \<le> M"
  shows "spec_shift M (nat M - 1) = 1"
proof -
  have "real (nat M - 1) = real_of_int M - 1"
    using assms by (simp add: of_nat_diff)
  moreover have "(real_of_int M - 1) * (2 / (real_of_int M - 1)) = 2"
    using assms by (simp add: field_simps)
  ultimately show ?thesis by (simp add: spec_shift_def)
qed

lemma spec_shift_sym:
  assumes "2 \<le> M" "i < nat M"
  shows "spec_shift M (nat M - 1 - i) = - spec_shift M i"
proof -
  have M1: "real_of_int M - 1 \<noteq> 0" using assms by simp
  have "real (nat M - 1 - i) = real_of_int M - 1 - real i"
    using assms by (simp add: of_nat_diff)
  moreover have "(real_of_int M - 1 - real i) * (2 / (real_of_int M - 1)) =
      2 - real i * (2 / (real_of_int M - 1))"
    using M1 by (simp add: field_simps)
  ultimately show ?thesis by (simp add: spec_shift_def)
qed

lemma float32_shift_first: "float32_shift M 0 = - 1"
  by (simp add: float32_shift_def)

lemma float32_shift_last:
  assumes "2 \<le> M" "M \<le> 2 ^ 24"
  shows "\<bar>float32_shift M (nat M - 1) - 1\<bar> \<le> 1 / 2 ^ 21"
proof -
  have "nat M - 1 < nat M" using assms(1) by simp
  from float32_shift_error[OF assms this] show ?thesis
    by (simp only: spec_shift_last[OF assms(1)])
qed

lemma float32_shift_sym:
  assumes "2 \<le> M" "M \<le> 2 ^ 24" "i < nat M"
  shows "\<bar>float32_shift M (nat M - 1 - i) + float32_shift M i\<bar> \<le> 1 / 2 ^ 20"
proof -
  define a where "a = float32_shift M (nat M - 1 - i)"
  define b where "b = float32_shift M i"
  define t where "t = spec_shift M i"
  have "nat M - 1 - i < nat M" using assms(1) by simp
  from float32_shift_error[OF assms(1,2) this]
  have 1: "\<bar>a - (- t)\<bar> \<le> 1 / 2 ^ 21"
    by (simp only: spec_shift_sym[OF assms(1,3)] a_def t_def)
  have 2: "\<bar>b - t\<bar> \<le> 1 / 2 ^ 21"
    using float32_shift_error[OF assms] by (simp only: b_def t_def)
  have "\<bar>a + b\<bar> \<le> \<bar>a - (- t)\<bar> + \<bar>b - t\<bar>" by linarith
  then have "\<bar>a + b\<bar> \<le> 1 / 2 ^ 20" using 1 2 by simp
  then show ?thesis by (simp only: a_def b_def)
qed

lemma float32_eval:
  assumes "pow2 e \<le> \<bar>x\<bar>" "\<bar>x\<bar> < pow2 (e + 1)" "- 126 \<le> e"
  shows "float32 x = of_int (round_half_even (x / pow2 (e - 23))) * pow2 (e - 23)"
  using round_to_eval[OF assms(1,2), of "- 126" 24] assms(3) by (simp add: float32_def)

lemma float64_eval:
  assumes "pow2 e \<le> \<bar>x\<bar>" "\<bar>x\<bar> < pow2 (e + 1)" "- 1022 \<le> e"
  shows "float64 x = of_int (round_half_even (x / pow2 (e - 52))) * pow2 (e - 52)"
  using round_to_eval[OF assms(1,2), of "- 1022" 53] assms(3) by (simp add: float64_def)

text \<open>The offsets for 4 filters, and a mean that cancellation makes inexact.\<close>

lemma float64_2_3: "float64 (2 / 3) = 6004799503160661 / 2 ^ 53"
  by (subst float64_eval[where e = "- 1"])
     (simp_all add: pow2_def round_half_even_def Let_def)

lemma float32_c4: "float32 (6004799503160661 / 2 ^ 53) = 11184811 / 2 ^ 24"
  by (subst float32_eval[where e = "- 1"])
     (simp_all add: pow2_def round_half_even_def Let_def)

lemma float32_shift_4_1: "float32_shift 4 1 = - (5592405 / 2 ^ 24)"
proof -
  have r: "2 / real_of_int (4 - 1) = 2 / 3" "float32 (real 1) = 1" by simp_all
  have "float32_shift 4 1 = float32 (- 1 + float32 (11184811 / 2 ^ 24 * 1))"
    by (simp only: float32_shift_def r float64_2_3 float32_c4)
  also have "float32 (11184811 / 2 ^ 24 * 1) = 11184811 / 2 ^ 24"
    by (subst float32_eval[where e = "- 1"])
       (simp_all add: pow2_def round_half_even_def Let_def)
  also have "float32 (- 1 + 11184811 / 2 ^ 24) = - (5592405 / 2 ^ 24)"
    by (subst float32_eval[where e = "- 2"])
       (simp_all add: pow2_def round_half_even_def Let_def)
  finally show ?thesis .
qed

lemma float32_shift_4_2: "float32_shift 4 2 = 2796203 / 2 ^ 23"
proof -
  have r: "2 / real_of_int (4 - 1) = 2 / 3" "float32 (real 2) = 2" by simp_all
  have "float32_shift 4 2 = float32 (- 1 + float32 (11184811 / 2 ^ 24 * 2))"
    by (simp only: float32_shift_def r float64_2_3 float32_c4)
  also have "float32 (11184811 / 2 ^ 24 * 2) = 11184811 / 2 ^ 23"
    by (subst float32_eval[where e = 0])
       (simp_all add: pow2_def round_half_even_def Let_def)
  also have "float32 (- 1 + 11184811 / 2 ^ 23) = 2796203 / 2 ^ 23"
    by (subst float32_eval[where e = "- 2"])
       (simp_all add: pow2_def round_half_even_def Let_def)
  finally show ?thesis .
qed

lemma reduce_mean_float32_cancellation:
  "reduce_mean_float32 [16777216, 1, - 16777216, 1, 1 / 2] = 10066330 / 2 ^ 25"
proof -
  have a: "float32 16777216 = 16777216"
    by (subst float32_eval[where e = 24])
       (simp_all add: pow2_def round_half_even_def Let_def)
  have b: "float32 16777217 = 16777216"
    by (subst float32_eval[where e = 24])
       (simp_all add: pow2_def round_half_even_def Let_def)
  have c: "float32 (3 / 2) = 3 / 2"
    by (subst float32_eval[where e = 0])
       (simp_all add: pow2_def round_half_even_def Let_def)
  have d: "float32 (real 5) = 5"
    using float32_of_int[of 5] by simp
  have e: "float32 (3 / 10) = 10066330 / 2 ^ 25"
    by (subst float32_eval[where e = "- 2"])
       (simp_all add: pow2_def round_half_even_def Let_def)
  have "reduce_sum_float32 [16777216, 1, - 16777216, 1, 1 / 2] =
      float32 (float32 (float32 (float32 (float32 (0 + 16777216) + 1) + - 16777216) + 1) + 1 / 2)"
    by (simp only: reduce_sum_float32_def foldl.simps)
  also have "\<dots> = 3 / 2"
    by (simp add: a b c)
  finally have "reduce_sum_float32 [16777216, 1, - 16777216, 1, 1 / 2] = 3 / 2" .
  moreover have "float32 (real (length [16777216, 1, - 16777216, 1, 1 / 2 :: real])) = 5"
    using d by simp
  ultimately have "reduce_mean_float32 [16777216, 1, - 16777216, 1, 1 / 2] = float32 (3 / 2 / 5)"
    by (simp only: reduce_mean_float32_def)
  also have "\<dots> = 10066330 / 2 ^ 25" using e by simp
  finally show ?thesis .
qed




subsection \<open>Rows, loss and layers\<close>



lemma length_concat_rows:
  "\<forall>r\<in>set rows. length r = n \<Longrightarrow> length (concat rows) = length rows * n"
  by (induction rows) simp_all

lemma take_drop_concat_rows:
  assumes "\<forall>r\<in>set rows. length r = n" "i < length rows"
  shows "take n (drop (i * n) (concat rows)) = rows ! i"
  using assms
proof (induction rows arbitrary: i)
  case Nil
  then show ?case by simp
next
  case (Cons r rows)
  show ?case
  proof (cases i)
    case 0
    then show ?thesis using Cons.prems by simp
  next
    case (Suc k)
    then have "drop (i * n) (concat (r # rows)) = drop (k * n) (concat rows)"
      using Cons.prems by simp
    then show ?thesis using Cons Suc by simp
  qed
qed

lemma reshaped_binary_filters_rows:
  assumes "0 < M" "length B = nat M" "\<forall>b\<in>set B. length (data b) = n"
  shows "reshaped_binary_filters B M = Inr (map data B)"
proof -
  let ?rows = "map data B"
  have all: "\<forall>r\<in>set ?rows. length r = n" using assms(3) by simp
  have len: "length (concat ?rows) = nat M * n"
    using length_concat_rows[OF all] assms(2) by simp
  have M: "0 < nat M" using assms(1) by simp
  then have cols: "length (concat ?rows) div nat M = n" "length (concat ?rows) mod nat M = 0"
    using len by simp_all
  have "map (\<lambda>i. take n (drop (i * n) (concat ?rows))) [0..<nat M] = ?rows"
    using take_drop_concat_rows[OF all] assms(2)
    by (intro nth_equalityI) simp_all
  then show ?thesis
    using assms(1) cols by (simp add: reshaped_binary_filters_def Let_def)
qed








lemma get_alphas_built:
  assumes "2 \<le> M" "get_binary_filters W M = Inr B"
  shows "\<exists>loss. get_alphas W B M alphas = Inr loss"
proof -
  have len: "length B = nat M" "\<forall>b\<in>set B. length (data b) = length (data W)"
    using get_binary_filters_members[OF assms(2)] by simp_all
  have rows: "reshaped_binary_filters B M = Inr (map data B)"
    using assms(1) len
    by (intro reshaped_binary_filters_rows[where n = "length (data W)"]) simp_all
  have "B \<noteq> []" using len(1) assms(1) by auto
  then have "(case map data B of [] \<Rightarrow> length (data W) | r # _ \<Rightarrow> length r) = length (data W)"
    using len(2) by (cases B) simp_all
  then show ?thesis by (simp add: get_alphas_def rows Let_def)
qed

lemma ApproxConv_Inr:
  assumes "2 \<le> M"
  shows "ApproxConv M W b strides pad rnd slots =
     Inr \<lparr>ac_no_filters = M, ac_strides = strides, ac_padding = pad, ac_filters = W,
          ac_biases = b, ac_alphas = map rnd [0..<nat M], ac_slots = slots\<rparr>"
proof -
  obtain B where B: "get_binary_filters W M = Inr B"
    using assms get_binary_filters_Inr[of M W] by simp
  obtain loss where "get_alphas W B M (map rnd [0..<nat M]) = Inr loss"
    using get_alphas_built[OF assms B] by blast
  then show ?thesis by (simp add: ApproxConv_def B Let_def)
qed


lemma alphas_training_op_Inr:
  assumes "2 \<le> ac_no_filters layer"
  shows "\<exists>alphas slots. alphas_training_op minimize layer =
     Inr (layer\<lparr>ac_alphas := alphas, ac_slots := slots\<rparr>)"
proof -
  obtain B where B: "get_binary_filters (ac_filters layer) (ac_no_filters layer) = Inr B"
    using assms get_binary_filters_Inr[of "ac_no_filters layer" "ac_filters layer"] by simp
  have len: "length B = nat (ac_no_filters layer)"
      "\<forall>b\<in>set B. length (data b) = length (data (ac_filters layer))"
    using get_binary_filters_members[OF B] by simp_all
  have rows: "reshaped_binary_filters B (ac_no_filters layer) = Inr (map data B)"
    using assms len
    by (intro reshaped_binary_filters_rows[where n = "length (data (ac_filters layer))"])
      simp_all
  have "alphas_training_op minimize layer =
      Inr (layer\<lparr>ac_alphas := fst (minimize (alphas_loss (data (ac_filters layer)) (map data B))
                                  (ac_alphas layer) (ac_slots layer)),
                 ac_slots := snd (minimize (alphas_loss (data (ac_filters layer)) (map data B))
                                  (ac_alphas layer) (ac_slots layer))\<rparr>)"
    by (simp add: alphas_training_op_def B rows split_beta)
  then show ?thesis by blast
qed

lemma ABC_unfold:
  "ABC W b M K strides pad rnd slots =
     (if K < 0 then Inl ValueError
      else case ApproxConv M W b strides pad rnd slots of
             Inl e \<Rightarrow> Inl e
           | Inr layer \<Rightarrow>
               Inr \<lparr>abc_no_ApproxConvLayers = K, abc_shift_parameters = replicate (nat K) 0,
                    abc_betas = replicate (nat K) 1, abc_approx = layer\<rparr>)"
  by (simp add: ABC_def Let_def)

lemma alphas_training_op_frame:
  assumes "alphas_training_op minimize layer = Inr layer'"
  shows "\<exists>alphas slots. layer' = layer\<lparr>ac_alphas := alphas, ac_slots := slots\<rparr>"
  using assms
  by (auto simp: alphas_training_op_def split_beta Let_def split: sum.splits)

section \<open>The claims\<close>

subsection \<open>Shift offsets\<close>

text \<open>
  C2 as stated fails: for 42 filters the last offset is \<open>1 - 2\<^sup>-\<^sup>2\<^sup>3\<close>, not \<open>+1\<close>, which
  is what \<open>-1 + i * (2 / (M - 1))\<close> gives at \<open>i = M - 1\<close>; and for 4 filters the two
  middle offsets, which are to be symmetric around 0, add up to \<open>2\<^sup>-\<^sup>2\<^sup>4\<close>.
\<close>

theorem shift_offsets_of_42_and_of_4_are_inexact:
  "projr (spreaded_deviation 42) ! 41 = 1 - 1 / 2 ^ 23 \<and> spec_shift 42 41 = 1 \<and>
   projr (spreaded_deviation 4) ! 1 + projr (spreaded_deviation 4) ! 2 = 1 / 2 ^ 24"
proof (intro conjI)
  have "projr (spreaded_deviation 42) ! 41 = float32_shift 42 41"
    by (simp add: spreaded_deviation_Inr)
  then show "projr (spreaded_deviation 42) ! 41 = 1 - 1 / 2 ^ 23"
    by (simp only: float32_shift_42_41)
  show "spec_shift 42 41 = 1"
    by (simp add: spec_shift_def)
  have "projr (spreaded_deviation 4) ! 1 = float32_shift 4 1"
      "projr (spreaded_deviation 4) ! 2 = float32_shift 4 2"
    by (simp_all add: spreaded_deviation_Inr numeral_2_eq_2)
  then have "projr (spreaded_deviation 4) ! 1 + projr (spreaded_deviation 4) ! 2 =
      - (5592405 / 2 ^ 24) + 2796203 / 2 ^ 23"
    by (simp only: float32_shift_4_1 float32_shift_4_2)
  also have "\<dots> = 1 / 2 ^ 24" by simp
  finally show "projr (spreaded_deviation 4) ! 1 + projr (spreaded_deviation 4) ! 2 = 1 / 2 ^ 24" .
qed

text \<open>
  C2, amended. For every \<open>M\<close> from 2 to \<open>2\<^sup>2\<^sup>4\<close> the generator computes \<open>M\<close> offsets in
  \<open>float32\<close> arithmetic, the \<open>i\<close>-th being \<open>-1 + c * i\<close> with \<open>c\<close> the quotient \<open>2 / (M - 1)\<close>
  rounded to a double and then to \<open>float32\<close>, and the product and the sum rounded to
  \<open>float32\<close>. The first offset is exactly \<open>-1\<close>. Every offset is within \<open>2\<^sup>-\<^sup>2\<^sup>1\<close> of
  \<open>-1 + i * (2 / (M - 1))\<close>, so the last is within \<open>2\<^sup>-\<^sup>2\<^sup>1\<close> of \<open>+1\<close>, and offsets
  \<open>i\<close> and \<open>M - 1 - i\<close> add up to at most \<open>2\<^sup>-\<^sup>2\<^sup>0\<close> in absolute value. The generator uses
  each offset multiplied, in \<open>float32\<close>, by the standard deviation.
\<close>

theorem shift_offsets_in_float32:
  assumes "2 \<le> M" "M \<le> 2 ^ 24"
  shows "\<exists>sd. spreaded_deviation M = Inr sd \<and> length sd = nat M \<and>
     (\<forall>i<nat M. sd ! i = float32_shift M i \<and> \<bar>sd ! i - spec_shift M i\<bar> \<le> 1 / 2 ^ 21) \<and>
     sd ! 0 = - 1 \<and> \<bar>sd ! (nat M - 1) - 1\<bar> \<le> 1 / 2 ^ 21 \<and>
     (\<forall>i<nat M. \<bar>sd ! (nat M - 1 - i) + sd ! i\<bar> \<le> 1 / 2 ^ 20) \<and>
     get_shifted_stddev stddev M = Inr (map (\<lambda>s. float32 (s * stddev)) sd)"
proof -
  define sd where "sd = map (float32_shift M) [0..<nat M]"
  have eq: "spreaded_deviation M = Inr sd"
    using assms by (simp add: spreaded_deviation_Inr sd_def)
  then have scaled: "get_shifted_stddev stddev M = Inr (map (\<lambda>s. float32 (s * stddev)) sd)"
    by (simp add: get_shifted_stddev_def)
  have len: "length sd = nat M" by (simp add: sd_def)
  have nth: "sd ! i = float32_shift M i" if "i < nat M" for i
    using that by (simp add: sd_def)
  have M0: "0 < nat M" "nat M - 1 < nat M" using assms(1) by simp_all
  show ?thesis
  proof (intro exI[of _ sd] conjI allI impI)
    show "spreaded_deviation M = Inr sd" by (rule eq)
    show "length sd = nat M" by (rule len)
    show "sd ! i = float32_shift M i" if "i < nat M" for i using that by (rule nth)
    show "\<bar>sd ! i - spec_shift M i\<bar> \<le> 1 / 2 ^ 21" if "i < nat M" for i
      using float32_shift_error[OF assms that] by (simp only: nth[OF that])
    show "sd ! 0 = - 1" by (simp only: nth[OF M0(1)] float32_shift_first)
    show "\<bar>sd ! (nat M - 1) - 1\<bar> \<le> 1 / 2 ^ 21"
      using float32_shift_last[OF assms] by (simp only: nth[OF M0(2)])
    show "\<bar>sd ! (nat M - 1 - i) + sd ! i\<bar> \<le> 1 / 2 ^ 20" if "i < nat M" for i
    proof -
      have "nat M - 1 - i < nat M" using M0 by simp
      from nth[OF this] nth[OF that] float32_shift_sym[OF assms that]
      show ?thesis by (simp only:)
    qed
    show "get_shifted_stddev stddev M = Inr (map (\<lambda>s. float32 (s * stddev)) sd)"
      by (rule scaled)
  qed
qed

theorem shift_offsets_in_float32_witness:
  "(2::int) \<le> 42 \<and> (42::int) \<le> 2 ^ 24 \<and>
   (\<exists>sd. spreaded_deviation 42 = Inr sd \<and> length sd = 42 \<and> sd ! 0 = - 1 \<and>
      sd ! 41 = 1 - 1 / 2 ^ 23 \<and> \<bar>sd ! 41 - 1\<bar> \<le> 1 / 2 ^ 21)"
proof -
  have h: "(2::int) \<le> 42" "(42::int) \<le> 2 ^ 24" by simp_all
  obtain sd where sd: "spreaded_deviation 42 = Inr sd" "length sd = nat 42"
      "\<forall>i<nat 42. sd ! i = float32_shift 42 i \<and> \<bar>sd ! i - spec_shift 42 i\<bar> \<le> 1 / 2 ^ 21"
      "sd ! 0 = - 1" "\<bar>sd ! (nat 42 - 1) - 1\<bar> \<le> 1 / 2 ^ 21"
    using shift_offsets_in_float32[OF h, of 0] by blast
  from sd(3) have "sd ! 41 = float32_shift 42 41" by simp
  then have "sd ! 41 = 1 - 1 / 2 ^ 23" by (simp only: float32_shift_42_41)
  moreover from sd(5) have "\<bar>sd ! 41 - 1\<bar> \<le> 1 / 2 ^ 21" by simp
  moreover have "length sd = 42" using sd(2) by simp
  ultimately show ?thesis using sd(1,4) h by blast
qed

subsection \<open>Binary members\<close>




text \<open>
  C1. The generator is to return elements that are exactly \<open>+1\<close> or \<open>-1\<close>, also on an
  all-zero filter bank. The runtime's sign function maps zero to zero: on the all-zero
  bank every element of both members is \<open>0\<close>, and on the bank with elements \<open>0\<close> and \<open>2\<close>
  (mean 1, standard deviation 1) each member has one element \<open>0\<close>.
\<close>

theorem binary_filters_contain_zero:
  "get_binary_filters \<lparr>shape = [1, 1, 1, 2], data = [0, 0]\<rparr> 2 =
     Inr [\<lparr>shape = [1, 1, 1, 2], data = [0, 0]\<rparr>, \<lparr>shape = [1, 1, 1, 2], data = [0, 0]\<rparr>] \<and>
   get_binary_filters \<lparr>shape = [1, 1, 1, 2], data = [0, 2]\<rparr> 2 =
     Inr [\<lparr>shape = [1, 1, 1, 2], data = [- 1, 0]\<rparr>, \<lparr>shape = [1, 1, 1, 2], data = [0, 1]\<rparr>]"
  using get_binary_filters_zeros[of 2 "[1, 1, 1, 2]" 2]
  by (simp add: get_binary_filters_example numeral_2_eq_2)

text \<open>
  C8. On the all-zero \<open>5 \<times> 5 \<times> 1 \<times> 32\<close> filter bank with \<open>M = 5\<close> the moment
  estimator returns mean 0 and standard deviation 0, and the generator returns five
  identical members; their elements are all \<open>0\<close>, neither \<open>+1\<close> nor \<open>-1\<close>.
\<close>

theorem zero_filter_bank_gives_zero_members:
  "get_mean_stddev \<lparr>shape = [5, 5, 1, 32], data = replicate (5 * 5 * 1 * 32) 0\<rparr> = (0, 0) \<and>
   get_binary_filters \<lparr>shape = [5, 5, 1, 32], data = replicate (5 * 5 * 1 * 32) 0\<rparr> 5 =
     Inr (replicate 5 \<lparr>shape = [5, 5, 1, 32], data = replicate (5 * 5 * 1 * 32) 0\<rparr>)"
  using get_binary_filters_zeros[of 5 "[5, 5, 1, 32]" "5 * 5 * 1 * 32"]
  by (simp add: get_mean_stddev_zeros)

subsection \<open>Alpha loss\<close>



subsection \<open>Forward pass of the approximate convolution layer\<close>







subsection \<open>Configuration\<close>



subsection \<open>Activation binarization\<close>

text \<open>
  C7. With shift parameter 0 an input below \<open>0.5\<close> is binarized to \<open>-1\<close> and an input
  above \<open>0.5\<close> to \<open>+1\<close>, after clipping into \<open>[0, 1]\<close>: \<open>-0.3\<close> gives \<open>-1\<close> and \<open>1.3\<close>
  gives \<open>+1\<close>. The input \<open>0.5\<close> itself, which is to give \<open>+1\<close>, gives \<open>0\<close>.
\<close>

theorem binarized_activation_at_shift_zero:
  "binarized_activation 0 x = (if x < 1 / 2 then - 1 else if x = 1 / 2 then 0 else 1) \<and>
   binarized_activation 0 (1 / 2) = 0 \<and>
   binarized_activation 0 (- 3 / 10) = - 1 \<and>
   binarized_activation 0 (13 / 10) = 1"
  by (auto simp: binarized_activation_def clip_by_value_def sign_def Let_def max_def min_def)

subsection \<open>What a run changes\<close>

text \<open>
  C9. A run of the alpha training operation, which succeeds on every layer with at least
  two binary filters, changes the alphas (and the slots of their optimizer) and nothing
  else: the filter bank, the biases, the shift parameters and the betas are as before. A
  run of a forward callable, of the approximate convolution layer or of the ABC layer,
  changes no variable at all.
\<close>

theorem training_step_changes_alphas_only:
  "(2 \<le> ac_no_filters (abc_approx layer) \<longrightarrow>
      (\<exists>layer'. sess_run minimize conv2d Alphas_training_op layer = Inr (No_value, layer'))) \<and>
   (\<forall>v layer'. sess_run minimize conv2d Alphas_training_op layer = Inr (v, layer') \<longrightarrow>
      (\<exists>alphas slots. layer' =
          layer\<lparr>abc_approx := (abc_approx layer)\<lparr>ac_alphas := alphas, ac_slots := slots\<rparr>\<rparr>) \<and>
      ac_filters (abc_approx layer') = ac_filters (abc_approx layer) \<and>
      ac_biases (abc_approx layer') = ac_biases (abc_approx layer) \<and>
      abc_shift_parameters layer' = abc_shift_parameters layer \<and>
      abc_betas layer' = abc_betas layer) \<and>
   (\<forall>x v layer'. sess_run minimize conv2d (ApproxConvLayer_output x) layer = Inr (v, layer')
      \<longrightarrow> layer' = layer) \<and>
   (\<forall>x v layer'. sess_run minimize conv2d (ABCLayer_output x) layer = Inr (v, layer')
      \<longrightarrow> layer' = layer)"
proof (intro conjI allI impI)
  assume "2 \<le> ac_no_filters (abc_approx layer)"
  then show "\<exists>layer'. sess_run minimize conv2d Alphas_training_op layer = Inr (No_value, layer')"
    using alphas_training_op_Inr[of "abc_approx layer" minimize]
    by (auto simp: sess_run_def)
next
  fix v layer'
  assume run: "sess_run minimize conv2d Alphas_training_op layer = Inr (v, layer')"
  then obtain approx where approx: "alphas_training_op minimize (abc_approx layer) = Inr approx"
      "layer' = layer\<lparr>abc_approx := approx\<rparr>"
    by (auto simp: sess_run_def split: sum.splits)
  from alphas_training_op_frame[OF approx(1)] obtain alphas slots
    where upd: "approx = (abc_approx layer)\<lparr>ac_alphas := alphas, ac_slots := slots\<rparr>"
    by blast
  show "\<exists>alphas slots. layer' =
          layer\<lparr>abc_approx := (abc_approx layer)\<lparr>ac_alphas := alphas, ac_slots := slots\<rparr>\<rparr>"
    using approx(2) upd by blast
  show "ac_filters (abc_approx layer') = ac_filters (abc_approx layer)"
    using approx(2) upd by simp
  show "ac_biases (abc_approx layer') = ac_biases (abc_approx layer)"
    using approx(2) upd by simp
  show "abc_shift_parameters layer' = abc_shift_parameters layer"
    using approx(2) by simp
  show "abc_betas layer' = abc_betas layer"
    using approx(2) by simp
next
  fix x v layer'
  assume "sess_run minimize conv2d (ApproxConvLayer_output x) layer = Inr (v, layer')"
  then show "layer' = layer"
    by (auto simp: sess_run_def split: sum.splits)
next
  fix x v layer'
  assume "sess_run minimize conv2d (ABCLayer_output x) layer = Inr (v, layer')"
  then show "layer' = layer"
    by (auto simp: sess_run_def split: sum.splits)
qed


theorem training_step_changes_alphas_only_witness:
  "\<exists>layer layer' out.
     ABC \<lparr>shape = [1, 1, 1, 2], data = [0, 2]\<rparr> (Some [1, 10]) 2 2 (1, 1) VALID real (0::nat)
       = Inr layer \<and>
     2 \<le> ac_no_filters (abc_approx layer) \<and>
     sess_run (\<lambda>loss a n. (map (\<lambda>v. v / 2) a, Suc n))
       (\<lambda>x f s p. Inr \<lparr>shape = [1, 1, 1, 2], data = map (\<lambda>v. hd (data x) * v) (data f)\<rparr>)
       Alphas_training_op layer = Inr (No_value, layer') \<and>
     ac_alphas (abc_approx layer) = [0, 1] \<and>
     ac_alphas (abc_approx layer') = [0, 1 / 2] \<and>
     ac_filters (abc_approx layer') = ac_filters (abc_approx layer) \<and>
     ac_biases (abc_approx layer') = ac_biases (abc_approx layer) \<and>
     abc_shift_parameters layer' = abc_shift_parameters layer \<and>
     abc_betas layer' = abc_betas layer \<and>
     sess_run (\<lambda>loss a n. (map (\<lambda>v. v / 2) a, Suc n))
       (\<lambda>x f s p. Inr \<lparr>shape = [1, 1, 1, 2], data = map (\<lambda>v. hd (data x) * v) (data f)\<rparr>)
       (ABCLayer_output \<lparr>shape = [1, 1, 1, 1], data = [5]\<rparr>) layer'
       = Inr (Tensor_value out, layer')"
proof -
  let ?W = "\<lparr>shape = [1, 1, 1, 2], data = [0, 2]\<rparr>"
  let ?min = "\<lambda>(loss :: real list \<Rightarrow> real) (a :: real list) (n :: nat).
     (map (\<lambda>v. v / 2) a, Suc n)"
  let ?conv = "\<lambda>x f (s :: nat \<times> nat) (p :: padding).
     Inr \<lparr>shape = [1, 1, 1, 2], data = map (\<lambda>v. hd (data x) * v) (data f)\<rparr> :: error + tensor"
  let ?x = "\<lparr>shape = [1, 1, 1, 1], data = [5]\<rparr>"
  let ?A = "\<lparr>ac_no_filters = 2, ac_strides = (1, 1), ac_padding = VALID, ac_filters = ?W,
     ac_biases = Some [1, 10], ac_alphas = [0, 1], ac_slots = 0 :: nat\<rparr>"
  let ?L = "\<lparr>abc_no_ApproxConvLayers = 2, abc_shift_parameters = [0, 0], abc_betas = [1, 1],
     abc_approx = ?A\<rparr>"
  let ?L' = "?L\<lparr>abc_approx := ?A\<lparr>ac_alphas := [0, 1 / 2], ac_slots := Suc 0\<rparr>\<rparr>"
  let ?out = "\<lparr>shape = [1, 1, 1, 2], data = [1, 11]\<rparr>"
  have built: "ABC ?W (Some [1, 10]) 2 2 (1, 1) VALID real (0::nat) = Inr ?L"
    by (simp add: ABC_unfold ApproxConv_Inr numeral_2_eq_2)
  have M: "2 \<le> ac_no_filters (abc_approx ?L)" by simp
  have train: "sess_run ?min ?conv Alphas_training_op ?L = Inr (No_value, ?L')"
    by (simp add: sess_run_def alphas_training_op_def get_binary_filters_example
        reshaped_binary_filters_def)
  have act: "tmap (binarized_activation 0) \<lparr>shape = sh, data = [5]\<rparr> =
      \<lparr>shape = sh, data = [1]\<rparr>" for sh
    by (simp add: tmap_def binarized_activation_def clip_by_value_def sign_def)
  have fwd1: "ApproxConvLayer ?conv (abc_approx ?L') \<lparr>shape = sh, data = [1]\<rparr> =
      Inr \<lparr>shape = [1, 1, 1, 2], data = [1 / 2, 11 / 2]\<rparr>" for sh
    by (simp add: ApproxConvLayer_def get_binary_filters_example add_biases_def
        convert_to_tensor_def weighted_sum_def)
  have fwd: "sess_run ?min ?conv (ABCLayer_output ?x) ?L' = Inr (Tensor_value ?out, ?L')"
    using fwd1 by (simp add: sess_run_def ABCLayer_def act convert_to_tensor_def weighted_sum_def)
  note frame = training_step_changes_alphas_only[of ?L ?min ?conv]
  from frame M train have
      "ac_filters (abc_approx ?L') = ac_filters (abc_approx ?L)"
      "ac_biases (abc_approx ?L') = ac_biases (abc_approx ?L)"
      "abc_shift_parameters ?L' = abc_shift_parameters ?L"
      "abc_betas ?L' = abc_betas ?L"
    by blast+
  moreover have "ac_alphas (abc_approx ?L) = [0, 1]" "ac_alphas (abc_approx ?L') = [0, 1 / 2]"
    by simp_all
  ultimately show ?thesis using built M train fwd by blast
qed

end
